theory Spec2Isabelle
  imports Main
begin

section \<open>Text and bytes\<close>

text \<open>
  A Python \<open>str\<close> is a sequence of Unicode code points and is modelled as a list of
  naturals; \<open>bytes\<close> is a list of 8-bit characters. \<open>ascii\<close> turns an ASCII literal into
  the \<open>str\<close> with the same characters.
\<close>

type_synonym pystr = "nat list"
type_synonym bytes = "char list"

definition ascii :: "string \<Rightarrow> pystr" where
  "ascii s = map of_char s"

text \<open>\<open>str.startswith\<close> on two strings.\<close>

definition startswith :: "pystr \<Rightarrow> pystr \<Rightarrow> bool" where
  "startswith s p = (take (length p) s = p)"

text \<open>The substring test \<open>p in s\<close> on two strings.\<close>

fun str_contains :: "pystr \<Rightarrow> pystr \<Rightarrow> bool" where
  "str_contains p [] = (p = [])"
| "str_contains p (c # cs) = (startswith (c # cs) p \<or> str_contains p cs)"


text \<open>\<open>sep.join(xs)\<close>.\<close>

fun str_join :: "pystr \<Rightarrow> pystr list \<Rightarrow> pystr" where
  "str_join sep [] = []"
| "str_join sep [x] = x"
| "str_join sep (x # y # ys) = x @ sep @ str_join sep (y # ys)"

subsection \<open>Strict UTF-8 decoding\<close>

text \<open>
  \<open>bytes.decode()\<close> decodes UTF-8 and raises \<open>UnicodeDecodeError\<close> on a byte sequence that
  is not well-formed: a stray or missing continuation byte, an overlong form, a surrogate,
  or a code point beyond U+10FFFF. \<open>None\<close> is that error.
\<close>

definition is_cont :: "nat \<Rightarrow> bool" where
  "is_cont b = (128 \<le> b \<and> b < 192)"

fun utf8_decode_nat :: "nat list \<Rightarrow> pystr option" where
  "utf8_decode_nat [] = Some []"
| "utf8_decode_nat (b # bs) =
     (if b < 128 then map_option (Cons b) (utf8_decode_nat bs)
      else if 192 \<le> b \<and> b < 224 then
        (case bs of
           c1 # r \<Rightarrow>
             (let cp = (b - 192) * 64 + (c1 - 128)
              in if is_cont c1 \<and> 128 \<le> cp
                 then map_option (Cons cp) (utf8_decode_nat r) else None)
         | _ \<Rightarrow> None)
      else if 224 \<le> b \<and> b < 240 then
        (case bs of
           c1 # c2 # r \<Rightarrow>
             (let cp = ((b - 224) * 64 + (c1 - 128)) * 64 + (c2 - 128)
              in if is_cont c1 \<and> is_cont c2 \<and> 2048 \<le> cp \<and> \<not> (55296 \<le> cp \<and> cp < 57344)
                 then map_option (Cons cp) (utf8_decode_nat r) else None)
         | _ \<Rightarrow> None)
      else if 240 \<le> b \<and> b < 248 then
        (case bs of
           c1 # c2 # c3 # r \<Rightarrow>
             (let cp = (((b - 240) * 64 + (c1 - 128)) * 64 + (c2 - 128)) * 64 + (c3 - 128)
              in if is_cont c1 \<and> is_cont c2 \<and> is_cont c3 \<and> 65536 \<le> cp \<and> cp < 1114112
                 then map_option (Cons cp) (utf8_decode_nat r) else None)
         | _ \<Rightarrow> None)
      else None)"

definition bytes_decode :: "bytes \<Rightarrow> pystr option" where
  "bytes_decode bs = utf8_decode_nat (map of_char bs)"

section \<open>JSON values\<close>

text \<open>
  What \<open>json.loads\<close> returns and \<open>json.dumps\<close> accepts: \<open>None\<close>, \<open>bool\<close>, \<open>int\<close>,
  \<open>float\<close>, \<open>str\<close>, \<open>list\<close> and \<open>dict\<close> (an association list in insertion order, keys
  distinct). Floating-point arithmetic is not modelled: a \<open>float\<close> is carried as the
  literal it was read from.
\<close>

datatype json =
    JNull
  | JBool bool
  | JInt int
  | JFloat pystr
  | JStr pystr
  | JList "json list"
  | JDict "(pystr \<times> json) list"

datatype exn =
    AssertionError
  | NotImplementedError
  | TypeError
  | ValueError
  | IndexError
  | KeyError
  | OverflowError
  | RuntimeError
  | JSONDecodeError
  | UnicodeDecodeError
  | RecursionError

subsection \<open>\<open>json.dumps\<close>\<close>

text \<open>
  The defaults of \<open>json.dumps\<close>: \<open>ensure_ascii=True\<close>, item separator \<open>", "\<close>, key
  separator \<open>": "\<close>. Every character outside the printable ASCII range is written as
  \<open>\uXXXX\<close> with lower-case digits, a character beyond the basic plane as a surrogate pair.
\<close>

definition hex_digit :: "nat \<Rightarrow> nat" where
  "hex_digit d = (if d < 10 then 48 + d else 87 + d)"

definition u_escape :: "nat \<Rightarrow> pystr" where
  "u_escape n =
     [92, 117, hex_digit (n div 4096 mod 16), hex_digit (n div 256 mod 16),
      hex_digit (n div 16 mod 16), hex_digit (n mod 16)]"

definition encode_char :: "nat \<Rightarrow> pystr" where
  "encode_char c =
     (if c = 34 then [92, 34]
      else if c = 92 then [92, 92]
      else if c = 10 then [92, 110]
      else if c = 13 then [92, 114]
      else if c = 9 then [92, 116]
      else if c = 8 then [92, 98]
      else if c = 12 then [92, 102]
      else if 32 \<le> c \<and> c \<le> 126 then [c]
      else if c < 65536 then u_escape c
      else u_escape (55296 + (c - 65536) div 1024 mod 1024) @ u_escape (56320 + (c - 65536) mod 1024))"

definition encode_basestring_ascii :: "pystr \<Rightarrow> pystr" where
  "encode_basestring_ascii s = [34] @ concat (map encode_char s) @ [34]"

function digits_of_nat :: "nat \<Rightarrow> pystr" where
  "digits_of_nat n = (if n < 10 then [48 + n] else digits_of_nat (n div 10) @ [48 + n mod 10])"
  by pat_completeness auto
termination
  by (relation "measure id") auto

fun json_dumps :: "json \<Rightarrow> pystr" where
  "json_dumps JNull = ascii ''null''"
| "json_dumps (JBool b) = (if b then ascii ''true'' else ascii ''false'')"
| "json_dumps (JInt i) = (if i < 0 then 45 # digits_of_nat (nat (- i)) else digits_of_nat (nat i))"
| "json_dumps (JFloat lit) = lit"
| "json_dumps (JStr s) = encode_basestring_ascii s"
| "json_dumps (JList xs) = [91] @ str_join [44, 32] (map json_dumps xs) @ [93]"
| "json_dumps (JDict kvs) =
     [123] @ str_join [44, 32]
       (map (\<lambda>kv. encode_basestring_ascii (fst kv) @ [58, 32] @ json_dumps (snd kv)) kvs) @ [125]"

subsection \<open>\<open>json.loads\<close>\<close>

text \<open>
  The decoder of the \<open>json\<close> module on a \<open>str\<close>: whitespace is space, tab, line feed and
  carriage return; strings are scanned in strict mode (a raw control character is an
  error); \<open>NaN\<close>, \<open>Infinity\<close> and \<open>-Infinity\<close> are accepted as floats; an integer literal
  of more than 4300 digits raises \<open>ValueError\<close>; a repeated key keeps its first position
  and its last value. Every other failure is \<open>JSONDecodeError\<close>.

  The scanner recurses on nested arrays and objects and is given fuel for it;
  \<open>RecursionError\<close> is the result when the fuel runs out. The depth at which the
  interpreter itself gives up on a deeply nested document is not modelled.
\<close>

definition is_ws :: "nat \<Rightarrow> bool" where
  "is_ws c = (c = 32 \<or> c = 9 \<or> c = 10 \<or> c = 13)"

definition skip_ws :: "pystr \<Rightarrow> pystr" where
  "skip_ws s = dropWhile is_ws s"

definition is_digit :: "nat \<Rightarrow> bool" where
  "is_digit c = (48 \<le> c \<and> c \<le> 57)"

definition hexval :: "nat \<Rightarrow> nat option" where
  "hexval c =
     (if 48 \<le> c \<and> c \<le> 57 then Some (c - 48)
      else if 97 \<le> c \<and> c \<le> 102 then Some (c - 87)
      else if 65 \<le> c \<and> c \<le> 70 then Some (c - 55)
      else None)"

fun decode_uXXXX :: "pystr \<Rightarrow> nat option" where
  "decode_uXXXX (a # b # c # d # r) =
     (case (hexval a, hexval b, hexval c, hexval d) of
        (Some w, Some x, Some y, Some z) \<Rightarrow> Some (((w * 16 + x) * 16 + y) * 16 + z)
      | _ \<Rightarrow> None)"
| "decode_uXXXX r = None"

definition backslash :: "nat \<Rightarrow> nat option" where
  "backslash e =
     (if e = 34 then Some 34
      else if e = 92 then Some 92
      else if e = 47 then Some 47
      else if e = 98 then Some 8
      else if e = 102 then Some 12
      else if e = 110 then Some 10
      else if e = 114 then Some 13
      else if e = 116 then Some 9
      else None)"

definition prepend :: "nat \<Rightarrow> (pystr \<times> pystr) option \<Rightarrow> (pystr \<times> pystr) option" where
  "prepend c res = map_option (\<lambda>(t, r). (c # t, r)) res"

text \<open>
  \<open>scanstring\<close> reads a string body after its opening quote and returns the decoded text
  with the input left after the closing quote; \<open>None\<close> is \<open>JSONDecodeError\<close>.
\<close>

fun scanstring :: "pystr \<Rightarrow> (pystr \<times> pystr) option" where
  "scanstring [] = None"
| "scanstring (c # cs) =
     (if c = 34 then Some ([], cs)
      else if c = 92 then
        (case cs of
           [] \<Rightarrow> None
         | e # r \<Rightarrow>
             if e = 117 then
               (case decode_uXXXX r of
                  None \<Rightarrow> None
                | Some uni \<Rightarrow>
                    if 55296 \<le> uni \<and> uni \<le> 56319 \<and> take 2 (drop 4 r) = [92, 117] then
                      (case decode_uXXXX (drop 6 r) of
                         None \<Rightarrow> None
                       | Some uni2 \<Rightarrow>
                           if 56320 \<le> uni2 \<and> uni2 \<le> 57343
                           then prepend (65536 + ((uni - 55296) * 1024 + (uni2 - 56320)))
                                  (scanstring (drop 10 r))
                           else prepend uni (scanstring (drop 4 r)))
                    else prepend uni (scanstring (drop 4 r)))
             else
               (case backslash e of
                  None \<Rightarrow> None
                | Some ch \<Rightarrow> prepend ch (scanstring r)))
      else if c < 32 then None
      else prepend c (scanstring cs))"

definition int_of_digits :: "pystr \<Rightarrow> int" where
  "int_of_digits ds = foldl (\<lambda>a d. a * 10 + int (d - 48)) 0 ds"

text \<open>
  The number grammar \<open>-?(0|[1-9][0-9]*)(\.[0-9]+)?([eE][-+]?[0-9]+)?\<close>, matched at the head
  of the input; \<open>None\<close> when it does not match.
\<close>

definition match_int_part :: "pystr \<Rightarrow> (pystr \<times> pystr) option" where
  "match_int_part s =
     (case s of
        [] \<Rightarrow> None
      | d # r \<Rightarrow>
          if d = 48 then Some ([48], r)
          else if is_digit d then Some (takeWhile is_digit s, dropWhile is_digit s)
          else None)"

definition match_frac :: "pystr \<Rightarrow> pystr \<times> pystr" where
  "match_frac s =
     (case s of
        p # d # r \<Rightarrow>
          if p = 46 \<and> is_digit d
          then (46 # takeWhile is_digit (d # r), dropWhile is_digit (d # r))
          else ([], s)
      | _ \<Rightarrow> ([], s))"

definition match_exp :: "pystr \<Rightarrow> pystr \<times> pystr" where
  "match_exp s =
     (case s of
        e # r \<Rightarrow>
          if e = 101 \<or> e = 69 then
            (case r of
               g # d # r' \<Rightarrow>
                 if (g = 45 \<or> g = 43) \<and> is_digit d
                 then (e # g # takeWhile is_digit (d # r'), dropWhile is_digit (d # r'))
                 else if is_digit g
                 then (e # takeWhile is_digit r, dropWhile is_digit r)
                 else ([], s)
             | [g] \<Rightarrow> if is_digit g then ([e, g], []) else ([], s)
             | [] \<Rightarrow> ([], s))
          else ([], s)
      | [] \<Rightarrow> ([], s))"

definition match_number :: "pystr \<Rightarrow> ((exn + json) \<times> pystr) option" where
  "match_number s =
     (let neg = (s \<noteq> [] \<and> hd s = 45);
          s1 = (if neg then tl s else s)
      in case match_int_part s1 of
           None \<Rightarrow> None
         | Some (ip, s2) \<Rightarrow>
             (case match_frac s2 of (fp, s3) \<Rightarrow>
              case match_exp s3 of (ep, s4) \<Rightarrow>
                if fp = [] \<and> ep = [] then
                  (if length ip > 4300 then Some (Inl ValueError, s4)
                   else Some (Inr (JInt (if neg then - int_of_digits ip else int_of_digits ip)), s4))
                else Some (Inr (JFloat ((if neg then [45] else []) @ ip @ fp @ ep)), s4)))"

text \<open>\<open>dict(pairs)\<close>: a later pair with a key already present replaces its value in place.\<close>

fun dict_set :: "(pystr \<times> json) list \<Rightarrow> pystr \<Rightarrow> json \<Rightarrow> (pystr \<times> json) list" where
  "dict_set [] k v = [(k, v)]"
| "dict_set ((k', v') # d) k v = (if k' = k then (k, v) # d else (k', v') # dict_set d k v)"

definition dict_of_pairs :: "(pystr \<times> json) list \<Rightarrow> (pystr \<times> json) list" where
  "dict_of_pairs ps = foldl (\<lambda>d kv. dict_set d (fst kv) (snd kv)) [] ps"

fun scan_once :: "nat \<Rightarrow> pystr \<Rightarrow> exn + (json \<times> pystr)"
  and array_items :: "nat \<Rightarrow> pystr \<Rightarrow> exn + (json list \<times> pystr)"
  and object_items :: "nat \<Rightarrow> pystr \<Rightarrow> exn + ((pystr \<times> json) list \<times> pystr)"
where
  "scan_once 0 s = Inl RecursionError"
| "scan_once (Suc n) s =
     (case s of
        [] \<Rightarrow> Inl JSONDecodeError
      | c # r \<Rightarrow>
          if c = 34 then
            (case scanstring r of
               None \<Rightarrow> Inl JSONDecodeError
             | Some (t, r') \<Rightarrow> Inr (JStr t, r'))
          else if c = 123 then
            (case skip_ws r of
               [] \<Rightarrow> Inl JSONDecodeError
             | c' # r' \<Rightarrow>
                 if c' = 125 then Inr (JDict [], r')
                 else (case object_items n (c' # r') of
                         Inl e \<Rightarrow> Inl e
                       | Inr (ps, r'') \<Rightarrow> Inr (JDict (dict_of_pairs ps), r'')))
          else if c = 91 then
            (case skip_ws r of
               [] \<Rightarrow> Inl JSONDecodeError
             | c' # r' \<Rightarrow>
                 if c' = 93 then Inr (JList [], r')
                 else (case array_items n (c' # r') of
                         Inl e \<Rightarrow> Inl e
                       | Inr (vs, r'') \<Rightarrow> Inr (JList vs, r'')))
          else if startswith s (ascii ''null'') then Inr (JNull, drop 4 s)
          else if startswith s (ascii ''true'') then Inr (JBool True, drop 4 s)
          else if startswith s (ascii ''false'') then Inr (JBool False, drop 5 s)
          else
            (case match_number s of
               Some (Inl e, r') \<Rightarrow> Inl e
             | Some (Inr v, r') \<Rightarrow> Inr (v, r')
             | None \<Rightarrow>
                 if startswith s (ascii ''NaN'') then Inr (JFloat (ascii ''NaN''), drop 3 s)
                 else if startswith s (ascii ''Infinity'') then Inr (JFloat (ascii ''Infinity''), drop 8 s)
                 else if startswith s (ascii ''-Infinity'') then Inr (JFloat (ascii ''-Infinity''), drop 9 s)
                 else Inl JSONDecodeError))"
| "array_items 0 s = Inl RecursionError"
| "array_items (Suc n) s =
     (case scan_once n s of
        Inl e \<Rightarrow> Inl e
      | Inr (v, r) \<Rightarrow>
          (case skip_ws r of
             [] \<Rightarrow> Inl JSONDecodeError
           | c # r' \<Rightarrow>
               if c = 93 then Inr ([v], r')
               else if c = 44 then
                 (case array_items n (skip_ws r') of
                    Inl e \<Rightarrow> Inl e
                  | Inr (vs, r'') \<Rightarrow> Inr (v # vs, r''))
               else Inl JSONDecodeError))"
| "object_items 0 s = Inl RecursionError"
| "object_items (Suc n) s =
     (case s of
        [] \<Rightarrow> Inl JSONDecodeError
      | q # r \<Rightarrow>
          if q \<noteq> 34 then Inl JSONDecodeError
          else
            (case scanstring r of
               None \<Rightarrow> Inl JSONDecodeError
             | Some (k, r1) \<Rightarrow>
                 (case skip_ws r1 of
                    [] \<Rightarrow> Inl JSONDecodeError
                  | c # r2 \<Rightarrow>
                      if c \<noteq> 58 then Inl JSONDecodeError
                      else
                        (case scan_once n (skip_ws r2) of
                           Inl e \<Rightarrow> Inl e
                         | Inr (v, r3) \<Rightarrow>
                             (case skip_ws r3 of
                                [] \<Rightarrow> Inl JSONDecodeError
                              | c' # r4 \<Rightarrow>
                                  if c' = 125 then Inr ([(k, v)], r4)
                                  else if c' = 44 then
                                    (case object_items n (skip_ws r4) of
                                       Inl e \<Rightarrow> Inl e
                                     | Inr (ps, r5) \<Rightarrow> Inr ((k, v) # ps, r5))
                                  else Inl JSONDecodeError)))))"

definition json_loads :: "pystr \<Rightarrow> exn + json" where
  "json_loads s =
     (if s \<noteq> [] \<and> hd s = 65279 then Inl JSONDecodeError
      else case scan_once (2 * length s + 2) (skip_ws s) of
             Inl e \<Rightarrow> Inl e
           | Inr (v, r) \<Rightarrow> if skip_ws r = [] then Inr v else Inl JSONDecodeError)"

section \<open>The client\<close>

datatype State =
    DISCONNECTED
  | CONNECTED
  | INITIALIZED
  | WAITING_FOR_CODE
  | RUNNING
  | EXPECTING_OUTPUT
  | SESSION_KILLED

datatype OutputType = OUTPUT | ERROR | INPUT

text \<open>
  The fields of \<open>OnlinePythonClient\<close> that the handlers read or write. \<open>files\<close> is a
  \<open>dict\<close> from file name to file content, in insertion order. The \<open>websocket\<close> and
  \<open>reader\<close> handles are not state of the model: what is sent and printed is returned as
  a list of effects.
\<close>

record client =
  state :: State
  files :: "(pystr \<times> pystr) list"
  output_type :: "OutputType option"
  cli_args :: "pystr list"

text \<open>A websocket message is a \<open>str\<close> (text frame) or \<open>bytes\<close> (binary frame).\<close>

datatype message = Text pystr | Binary bytes

datatype stream = Stdout | Stderr

text \<open>
  \<open>StateLog s\<close> is the record the \<open>state\<close> setter logs on every assignment, \<open>Send m\<close> is
  \<open>websocket.send(m)\<close>, and \<open>Print f t\<close> is \<open>print(t, file=f)\<close>, which writes \<open>t\<close> and a
  line feed. The other logging calls do not affect control flow and are left out.
\<close>

datatype effect = StateLog State | Send pystr | Print stream pystr

text \<open>
  How a handler ends: it returns, it raises, or the process is ended by \<open>os._exit\<close>.
  \<open>Unmodelled\<close> marks the conversions of \<open>int()\<close> that the model does not compute.
\<close>

datatype completion = Returned | Raised exn | Exited int | Unmodelled

type_synonym outcome = "client \<times> effect list \<times> completion"

text \<open>\<open>__init__\<close>: \<open>cli_args=None\<close> is replaced by the empty list.\<close>

definition init :: "(pystr \<times> pystr) list \<Rightarrow> pystr list option \<Rightarrow> client" where
  "init fs args =
     \<lparr>state = DISCONNECTED, files = fs, output_type = None,
      cli_args = (case args of None \<Rightarrow> [] | Some a \<Rightarrow> a)\<rparr>"

subsection \<open>Sending\<close>

definition send_list :: "json list \<Rightarrow> effect list" where
  "send_list l = [Send (ascii ''42'' @ json_dumps (JList l))]"

text \<open>
  \<open>next(iter(self.files))\<close> raises \<open>StopIteration\<close> on an empty \<open>dict\<close>, which a coroutine
  turns into \<open>RuntimeError\<close>.
\<close>

definition file_object :: "pystr \<times> pystr \<Rightarrow> json" where
  "file_object f =
     (case f of (file_name, code) \<Rightarrow>
        JDict [(ascii ''code'', JStr code), (ascii ''file_name'', JStr file_name)])"

definition send_files_and_run :: "client \<Rightarrow> exn + effect list" where
  "send_files_and_run c =
     (case files c of
        [] \<Rightarrow> Inl RuntimeError
      | f # fs \<Rightarrow>
          Inr (send_list
                 [JStr (ascii ''code''), JList (map file_object (files c)),
                  JStr (str_join [32] (cli_args c)), JStr (fst f)]))"




subsection \<open>Operations on decoded values\<close>

text \<open>\<open>data[0]\<close>.\<close>

fun getitem0 :: "json \<Rightarrow> exn + json" where
  "getitem0 (JList []) = Inl IndexError"
| "getitem0 (JList (x # xs)) = Inr x"
| "getitem0 (JStr []) = Inl IndexError"
| "getitem0 (JStr (ch # s)) = Inr (JStr [ch])"
| "getitem0 (JDict d) = Inl KeyError"
| "getitem0 v = Inl TypeError"

text \<open>\<open>method, string, number = data\<close>: a \<open>str\<close> unpacks into its characters, a \<open>dict\<close> into its keys.\<close>

fun unpack3 :: "json \<Rightarrow> exn + (json \<times> json \<times> json)" where
  "unpack3 (JList [x, y, z]) = Inr (x, y, z)"
| "unpack3 (JList xs) = Inl ValueError"
| "unpack3 (JStr [x, y, z]) = Inr (JStr [x], JStr [y], JStr [z])"
| "unpack3 (JStr s) = Inl ValueError"
| "unpack3 (JDict [x, y, z]) = Inr (JStr (fst x), JStr (fst y), JStr (fst z))"
| "unpack3 (JDict d) = Inl ValueError"
| "unpack3 v = Inl TypeError"

text \<open>\<open>p in v\<close> for a string \<open>p\<close>.\<close>

fun contains :: "pystr \<Rightarrow> json \<Rightarrow> exn + bool" where
  "contains p (JStr s) = Inr (str_contains p s)"
| "contains p (JList xs) = Inr (List.member xs (JStr p))"
| "contains p (JDict d) = Inr (List.member (map fst d) p)"
| "contains p v = Inl TypeError"

text \<open>
  \<open>int(v)\<close>. The conversions of a \<open>float\<close> and of a \<open>str\<close> are not computed (\<open>None\<close>).
\<close>

fun py_int :: "json \<Rightarrow> (exn + int) option" where
  "py_int (JInt i) = Some (Inr i)"
| "py_int (JBool b) = Some (Inr (if b then 1 else 0))"
| "py_int (JFloat f) = None"
| "py_int (JStr s) = None"
| "py_int v = Some (Inl TypeError)"

text \<open>
  \<open>os._exit(v)\<close>: the status must be an integer that fits a C \<open>int\<close>; \<open>None\<close> is not
  accepted.
\<close>

fun os_exit :: "json \<Rightarrow> completion" where
  "os_exit (JInt i) =
     (if - 2147483648 \<le> i \<and> i \<le> 2147483647 then Exited i else Raised OverflowError)"
| "os_exit (JBool b) = Exited (if b then 1 else 0)"
| "os_exit v = Raised TypeError"

subsection \<open>\<open>handle_message\<close>\<close>

text \<open>State \<open>RUNNING\<close>, prefix \<open>45\<close>.\<close>

definition running_45 :: "client \<Rightarrow> pystr \<Rightarrow> outcome" where
  "running_45 c t =
     (if \<not> startswith t (ascii ''451-'') then (c, [], Raised AssertionError)
      else case json_loads (drop 4 t) of
             Inl e \<Rightarrow> (c, [], Raised e)
           | Inr data \<Rightarrow>
               (case getitem0 data of
                  Inl e \<Rightarrow> (c, [], Raised e)
                | Inr name \<Rightarrow>
                    if name = JStr (ascii ''output'') then
                      (c\<lparr>output_type := Some OUTPUT, state := EXPECTING_OUTPUT\<rparr>,
                       [StateLog EXPECTING_OUTPUT], Returned)
                    else if name = JStr (ascii ''err'') then
                      (c\<lparr>output_type := Some ERROR, state := EXPECTING_OUTPUT\<rparr>,
                       [StateLog EXPECTING_OUTPUT], Returned)
                    else if name = JStr (ascii ''input'') then
                      (c\<lparr>output_type := Some INPUT, state := EXPECTING_OUTPUT\<rparr>,
                       [StateLog EXPECTING_OUTPUT], Returned)
                    else (c, [], Raised NotImplementedError)))"

text \<open>State \<open>RUNNING\<close>, prefix \<open>42\<close>.\<close>

definition exit_process :: "json \<Rightarrow> completion" where
  "exit_process number =
     (if number = JNull then os_exit number
      else case py_int number of
             None \<Rightarrow> Unmodelled
           | Some (Inl e) \<Rightarrow> Raised e
           | Some (Inr i) \<Rightarrow> os_exit (JInt i))"

definition running_42 :: "client \<Rightarrow> pystr \<Rightarrow> outcome" where
  "running_42 c t =
     (case json_loads (drop 2 t) of
        Inl e \<Rightarrow> (c, [], Raised e)
      | Inr data \<Rightarrow>
          (case unpack3 data of
             Inl e \<Rightarrow> (c, [], Raised e)
           | Inr (method, string, number) \<Rightarrow>
               if method = JStr (ascii ''exit'') then
                 (case contains (ascii ''Process exited'') string of
                    Inl e \<Rightarrow> (c, [], Raised e)
                  | Inr b \<Rightarrow> (c, [], exit_process number))
               else (c, [], Raised NotImplementedError)))"

text \<open>State \<open>EXPECTING_OUTPUT\<close>.\<close>

definition print_payload :: "client \<Rightarrow> stream \<Rightarrow> message \<Rightarrow> outcome" where
  "print_payload c f m =
     (case m of
        Text t \<Rightarrow> (c\<lparr>state := RUNNING\<rparr>, [Print f t, StateLog RUNNING], Returned)
      | Binary b \<Rightarrow>
          (case bytes_decode b of
             None \<Rightarrow> (c, [], Raised UnicodeDecodeError)
           | Some t \<Rightarrow> (c\<lparr>state := RUNNING\<rparr>, [Print f t, StateLog RUNNING], Returned)))"

definition expecting_output :: "client \<Rightarrow> message \<Rightarrow> outcome" where
  "expecting_output c m =
     (case output_type c of
        Some OUTPUT \<Rightarrow> print_payload c Stdout m
      | Some ERROR \<Rightarrow> print_payload c Stderr m
      | Some INPUT \<Rightarrow> (c\<lparr>state := RUNNING\<rparr>, [StateLog RUNNING], Returned)
      | None \<Rightarrow> (c, [], Raised NotImplementedError))"

definition handle_message :: "client \<Rightarrow> message \<Rightarrow> outcome" where
  "handle_message c m =
     (case state c of
        CONNECTED \<Rightarrow>
          (case m of
             Binary b \<Rightarrow> (c, [], Raised TypeError)
           | Text t \<Rightarrow>
               if startswith t (ascii ''0{'')
               then (c\<lparr>state := INITIALIZED\<rparr>, [StateLog INITIALIZED], Returned)
               else (c, [], Raised AssertionError))
      | INITIALIZED \<Rightarrow>
          if m = Text (ascii ''40'') then
            (case send_files_and_run (c\<lparr>state := WAITING_FOR_CODE\<rparr>) of
               Inl e \<Rightarrow> (c\<lparr>state := WAITING_FOR_CODE\<rparr>, [StateLog WAITING_FOR_CODE], Raised e)
             | Inr sent \<Rightarrow>
                 (c\<lparr>state := RUNNING\<rparr>,
                  [StateLog WAITING_FOR_CODE] @ sent @ [StateLog RUNNING], Returned))
          else (c, [], Raised AssertionError)
      | RUNNING \<Rightarrow>
          (case m of
             Binary b \<Rightarrow> (c, [], Raised NotImplementedError)
           | Text t \<Rightarrow>
               if take 2 t = ascii ''45'' then running_45 c t
               else if take 2 t = ascii ''42'' then running_42 c t
               else if take 2 t = ascii ''41''
               then (c\<lparr>state := SESSION_KILLED\<rparr>, [StateLog SESSION_KILLED], Returned)
               else (c, [], Raised NotImplementedError))
      | EXPECTING_OUTPUT \<Rightarrow> expecting_output c m
      | DISCONNECTED \<Rightarrow> (c, [], Raised NotImplementedError)
      | WAITING_FOR_CODE \<Rightarrow> (c, [], Raised NotImplementedError)
      | SESSION_KILLED \<Rightarrow> (c, [], Raised NotImplementedError))"

text \<open>
  The socket listener run on a sequence of messages, up to the first call that does not
  return.
\<close>

fun handle_messages :: "client \<Rightarrow> message list \<Rightarrow> outcome" where
  "handle_messages c [] = (c, [], Returned)"
| "handle_messages c (m # ms) =
     (case handle_message c m of
        (c', es, Returned) \<Rightarrow>
          (case handle_messages c' ms of (c'', es', r) \<Rightarrow> (c'', es @ es', r))
      | (c', es, r) \<Rightarrow> (c', es, r))"

section \<open>The vocabulary of the specification\<close>

text \<open>
  The specification's map from a header name to the kind of payload it announces.
\<close>

definition output_kind :: "pystr \<Rightarrow> OutputType option" where
  "output_kind name =
     (if name = ascii ''output'' then Some OUTPUT
      else if name = ascii ''err'' then Some ERROR
      else if name = ascii ''input'' then Some INPUT
      else None)"

text \<open>
  The packets of the specification and its decoding table, written from the
  specification's words and not from the code: \<open>0\<close> and a JSON object is Open, \<open>40\<close> is
  Ack, \<open>41\<close> is Disconnect, \<open>42\<close> and a JSON array \<open>[name, ...args]\<close> is an Event, \<open>45\<close>, an
  index between dashes and such an array is a HeaderEvent. The index is accepted with or
  without the dash before it.
\<close>

datatype packet =
    Open json
  | Ack
  | Disconnect
  | Event pystr "json list"
  | HeaderEvent pystr "json list"

definition event_body :: "pystr \<Rightarrow> (pystr \<times> json list) option" where
  "event_body b =
     (case json_loads b of
        Inr (JList (JStr name # args)) \<Rightarrow> Some (name, args)
      | _ \<Rightarrow> None)"

definition header_body :: "pystr \<Rightarrow> pystr option" where
  "header_body r =
     (let r1 = (case r of [] \<Rightarrow> r | c # r' \<Rightarrow> if c = 45 then r' else r)
      in if takeWhile is_digit r1 = [] then None
         else case dropWhile is_digit r1 of
                [] \<Rightarrow> None
              | c # b \<Rightarrow> if c = 45 then Some b else None)"

definition decode_packet :: "message \<Rightarrow> packet option" where
  "decode_packet m =
     (case m of
        Binary b \<Rightarrow> None
      | Text t \<Rightarrow>
          if t = ascii ''40'' then Some Ack
          else if t = ascii ''41'' then Some Disconnect
          else if take 1 t = ascii ''0'' then
            (case json_loads (drop 1 t) of
               Inr (JDict d) \<Rightarrow> Some (Open (JDict d))
             | _ \<Rightarrow> None)
          else if take 2 t = ascii ''42'' then
            (case event_body (drop 2 t) of
               None \<Rightarrow> None
             | Some (name, args) \<Rightarrow> Some (Event name args))
          else if take 2 t = ascii ''45'' then
            (case header_body (drop 2 t) of
               None \<Rightarrow> None
             | Some b \<Rightarrow>
                 (case event_body b of
                    None \<Rightarrow> None
                  | Some (name, args) \<Rightarrow> Some (HeaderEvent name args)))
          else None)"

text \<open>The rows of the specification's transition table.\<close>

fun in_table :: "State \<Rightarrow> packet \<Rightarrow> bool" where
  "in_table CONNECTED (Open j) = True"
| "in_table INITIALIZED Ack = True"
| "in_table RUNNING (HeaderEvent name args) = (output_kind name \<noteq> None)"
| "in_table RUNNING (Event name args) = (name = ascii ''exit'' \<and> length args = 2)"
| "in_table RUNNING Disconnect = True"
| "in_table EXPECTING_OUTPUT p = True"
| "in_table s p = False"

text \<open>A payload as text: a binary payload is decoded, a text payload is taken as it is.\<close>

definition payload_text :: "message \<Rightarrow> pystr option" where
  "payload_text m = (case m of Text t \<Rightarrow> Some t | Binary b \<Rightarrow> bytes_decode b)"


subsection \<open>An example session\<close>

definition a_py :: "(pystr \<times> pystr) list" where
  "a_py = [(ascii ''a.py'', ascii ''print(1)'')]"

definition running :: client where
  "running = (init a_py None)\<lparr>state := RUNNING\<rparr>"

definition expecting :: "OutputType \<Rightarrow> client" where
  "expecting k = (init a_py None)\<lparr>state := EXPECTING_OUTPUT, output_type := Some k\<rparr>"

section \<open>Properties\<close>

subsection \<open>Evaluation\<close>

lemmas scan_once_numeral =
  scan_once.simps(2)[of "pred_numeral k" for k, folded numeral_eq_Suc]

lemmas array_items_numeral =
  array_items.simps(2)[of "pred_numeral k" for k, folded numeral_eq_Suc]

lemmas object_items_numeral =
  object_items.simps(2)[of "pred_numeral k" for k, folded numeral_eq_Suc]

lemmas eval_loads =
  json_loads_def ascii_def skip_ws_def is_ws_def startswith_def match_number_def
  match_int_part_def match_frac_def match_exp_def is_digit_def int_of_digits_def prepend_def
  scan_once_numeral array_items_numeral object_items_numeral backslash_def hexval_def
  dict_of_pairs_def

lemmas eval_handle =
  handle_message_def running_45_def running_42_def expecting_output_def print_payload_def
  exit_process_def running_def expecting_def init_def a_py_def bytes_decode_def is_cont_def


subsection \<open>Construction with no arguments\<close>

text \<open>
  Claim C10. Constructing the client with \<open>cli_args=None\<close> gives the same client as
  constructing it with the empty list, so \<open>send_files_and_run\<close> behaves the same on both;
  when there is at least one file, the run request it sends has the empty string as its
  joined-arguments field.
\<close>

theorem init_none_is_empty:
  "init fs None = init fs (Some []) \<and>
   send_files_and_run (init fs None) = send_files_and_run (init fs (Some [])) \<and>
   send_files_and_run (init (f # fs) None) =
     Inr [Send (ascii ''42'' @
            json_dumps (JList [JStr (ascii ''code''), JList (map file_object (f # fs)),
                               JStr [], JStr (fst f)]))]"
  by (simp add: init_def send_files_and_run_def send_list_def)

subsection \<open>The exit event\<close>

text \<open>
  Claim C1. The exit event \<open>42["exit","Process exited with code 0",null]\<close> received in state
  \<open>RUNNING\<close> does not end the process with status 0: the code passes \<open>None\<close> to \<open>os._exit\<close>,
  which raises \<open>TypeError\<close>, and the client is left as it was.
\<close>

theorem exit_null_raises:
  \<open>handle_message running (Text (ascii ''42["exit","Process exited with code 0",null]'')) =
     (running, [], Raised TypeError)\<close>
  by (simp add: eval_loads eval_handle)

text \<open>An exit event with an integer code that fits a C \<open>int\<close> ends the process with that code.\<close>

lemma exit_int_code:
  assumes "state c = RUNNING" and "take 2 t = ascii ''42''"
    and "json_loads (drop 2 t) = Inr (JList [JStr (ascii ''exit''), JStr msg, JInt i])"
    and "- 2147483648 \<le> i" and "i \<le> 2147483647"
  shows "handle_message c (Text t) = (c, [], Exited i)"
  using assms by (simp add: handle_message_def running_42_def exit_process_def ascii_def)

lemma exit_one:
  \<open>handle_message running (Text (ascii ''42["exit","Process exited with code 1",1]'')) =
     (running, [], Exited 1)\<close>
  by (simp add: eval_loads eval_handle)

lemma startswith_Nil: "startswith s [] = True"
  by (simp add: startswith_def)

lemma startswith_Cons:
  "startswith s (p # ps) = (case s of [] \<Rightarrow> False | c # r \<Rightarrow> c = p \<and> startswith r ps)"
  by (cases s) (auto simp: startswith_def)

lemma startswith_451D:
  assumes "startswith t (ascii ''451-'')"
  shows "\<exists>r. t = 52 # 53 # 49 # 45 # r"
  using assms by (auto simp: ascii_def startswith_Cons startswith_Nil split: list.splits)

lemma running_45_accepts:
  assumes "startswith t (ascii ''451-'')"
    and "json_loads (drop 4 t) = Inr (JList (JStr name # args))"
    and "output_kind name = Some k"
  shows "running_45 c t =
           (c\<lparr>output_type := Some k, state := EXPECTING_OUTPUT\<rparr>, [StateLog EXPECTING_OUTPUT], Returned)"
  using assms by (auto simp: running_45_def output_kind_def split: if_splits)


subsection \<open>Header and payload\<close>




subsection \<open>The pending output kind\<close>

text \<open>
  Claim C2, as stated, fails: after a header and its payload the state is \<open>RUNNING\<close> again and
  \<open>output_type\<close> still holds the kind of the header.
\<close>

theorem output_type_kept_counterexample:
  \<open>state (fst (handle_messages running
            [Text (ascii ''451-["output"]''), Text (ascii ''hello'')])) = RUNNING \<and>
   output_type (fst (handle_messages running
            [Text (ascii ''451-["output"]''), Text (ascii ''hello'')])) = Some OUTPUT\<close>
  by (simp add: eval_loads eval_handle)

text \<open>
  Claim C2, amended. What every call of \<open>handle_message\<close> preserves is the converse: whenever
  the state is \<open>EXPECTING_OUTPUT\<close>, \<open>output_type\<close> is set. \<open>output_type\<close> is never cleared: once
  set it stays set after every call, a call in state \<open>EXPECTING_OUTPUT\<close> leaves it as it is,
  and the only call that changes it is one that returns from state \<open>RUNNING\<close> into state
  \<open>EXPECTING_OUTPUT\<close>, the acceptance of a header.
\<close>

theorem expecting_output_has_kind:
  assumes "state c = EXPECTING_OUTPUT \<longrightarrow> output_type c \<noteq> None"
    and "handle_message c m = (c', es, r)"
  shows "(state c' = EXPECTING_OUTPUT \<longrightarrow> output_type c' \<noteq> None) \<and>
         (state c = EXPECTING_OUTPUT \<longrightarrow> output_type c' = output_type c) \<and>
         (output_type c \<noteq> None \<longrightarrow> output_type c' \<noteq> None) \<and>
         (output_type c' \<noteq> output_type c \<longrightarrow>
            state c = RUNNING \<and> state c' = EXPECTING_OUTPUT \<and> r = Returned)"
proof (cases "state c")
  case RUNNING
  with assms show ?thesis
    by (auto simp: handle_message_def running_45_def running_42_def
             split: message.splits sum.splits if_splits prod.splits)
next
  case EXPECTING_OUTPUT
  with assms show ?thesis
    by (auto simp: handle_message_def expecting_output_def print_payload_def
             split: message.splits option.splits OutputType.splits)
next
  case INITIALIZED
  with assms show ?thesis
    by (auto simp: handle_message_def split: sum.splits if_splits)
qed (use assms in \<open>auto simp: handle_message_def split: message.splits if_splits\<close>)

theorem expecting_output_has_kind_witness:
  \<open>state (expecting OUTPUT) = EXPECTING_OUTPUT \<and>
   output_type (expecting OUTPUT) = Some OUTPUT \<and>
   handle_message (expecting OUTPUT) (Text (ascii ''hello'')) =
     ((expecting OUTPUT)\<lparr>state := RUNNING\<rparr>,
      [Print Stdout (ascii ''hello''), StateLog RUNNING], Returned) \<and>
   output_type ((expecting OUTPUT)\<lparr>state := RUNNING\<rparr>) = output_type (expecting OUTPUT) \<and>
   handle_message ((expecting ERROR)\<lparr>state := RUNNING\<rparr>) (Text (ascii ''41'')) =
     ((expecting ERROR)\<lparr>state := SESSION_KILLED\<rparr>, [StateLog SESSION_KILLED], Returned) \<and>
   output_type ((expecting ERROR)\<lparr>state := SESSION_KILLED\<rparr>) \<noteq> None\<close>
proof -
  have a: "state (expecting OUTPUT) = EXPECTING_OUTPUT \<longrightarrow> output_type (expecting OUTPUT) \<noteq> None"
    by (simp add: expecting_def)
  have b: "handle_message (expecting OUTPUT) (Text (ascii ''hello'')) =
             ((expecting OUTPUT)\<lparr>state := RUNNING\<rparr>,
              [Print Stdout (ascii ''hello''), StateLog RUNNING], Returned)"
    by (simp add: handle_message_def expecting_output_def print_payload_def expecting_def)
  have c: "state (expecting OUTPUT) = EXPECTING_OUTPUT" by (simp add: expecting_def)
  have d: "output_type (expecting OUTPUT) = Some OUTPUT" by (simp add: expecting_def)
  have e: "state ((expecting ERROR)\<lparr>state := RUNNING\<rparr>) = EXPECTING_OUTPUT \<longrightarrow>
             output_type ((expecting ERROR)\<lparr>state := RUNNING\<rparr>) \<noteq> None"
    by simp
  have f: "handle_message ((expecting ERROR)\<lparr>state := RUNNING\<rparr>) (Text (ascii ''41'')) =
     ((expecting ERROR)\<lparr>state := SESSION_KILLED\<rparr>, [StateLog SESSION_KILLED], Returned)"
    by (simp add: handle_message_def expecting_def ascii_def)
  have g: "output_type ((expecting ERROR)\<lparr>state := RUNNING\<rparr>) \<noteq> None"
    by (simp add: expecting_def)
  from expecting_output_has_kind [OF a b] expecting_output_has_kind [OF e f] b c d f g
  show ?thesis by blast
qed

subsection \<open>Routing the payload\<close>

text \<open>
  Claim C5, as stated, fails twice: the header \<open>45-0-["err"]\<close> is refused by the assertion on
  the prefix \<open>451-\<close>, so no payload is expected after it; and a binary payload that is not
  well-formed UTF-8 raises \<open>UnicodeDecodeError\<close> and leaves the state \<open>EXPECTING_OUTPUT\<close>.
\<close>

theorem payload_counterexample:
  \<open>handle_message running (Text (ascii ''45-0-["err"]'')) =
     (running, [], Raised AssertionError) \<and>
   handle_message (expecting OUTPUT) (Binary [CHR 0xFF]) =
     (expecting OUTPUT, [], Raised UnicodeDecodeError)\<close>
  by (simp add: eval_loads eval_handle)

text \<open>
  Claim C5, amended. In state \<open>EXPECTING_OUTPUT\<close> a payload that is text, or bytes that decode
  as UTF-8, is printed to standard output for the kind \<open>OUTPUT\<close> and to standard error for
  the kind \<open>ERROR\<close>; for the kind \<open>INPUT\<close> every payload is discarded with nothing printed. The
  next state is \<open>RUNNING\<close>. Bytes that do not decode as UTF-8 raise \<open>UnicodeDecodeError\<close> for
  the kinds \<open>OUTPUT\<close> and \<open>ERROR\<close>, with the client unchanged and nothing printed; with no kind
  set the call raises \<open>NotImplementedError\<close>. Receiving \<open>451-["err"]\<close> and then the bytes \<open>boom\<close>
  prints the text \<open>boom\<close> to standard error.
\<close>

theorem payload_routed:
  assumes "state c = EXPECTING_OUTPUT"
  shows \<open>(output_type c = Some OUTPUT \<and> payload_text m = Some t \<longrightarrow>
            handle_message c m =
              (c\<lparr>state := RUNNING\<rparr>, [Print Stdout t, StateLog RUNNING], Returned)) \<and>
         (output_type c = Some ERROR \<and> payload_text m = Some t \<longrightarrow>
            handle_message c m =
              (c\<lparr>state := RUNNING\<rparr>, [Print Stderr t, StateLog RUNNING], Returned)) \<and>
         (output_type c = Some INPUT \<longrightarrow>
            handle_message c m = (c\<lparr>state := RUNNING\<rparr>, [StateLog RUNNING], Returned)) \<and>
         (output_type c = Some OUTPUT \<and> payload_text m = None \<longrightarrow>
            handle_message c m = (c, [], Raised UnicodeDecodeError)) \<and>
         (output_type c = Some ERROR \<and> payload_text m = None \<longrightarrow>
            handle_message c m = (c, [], Raised UnicodeDecodeError)) \<and>
         (output_type c = None \<longrightarrow>
            handle_message c m = (c, [], Raised NotImplementedError)) \<and>
         handle_messages running [Text (ascii ''451-["err"]''), Binary ''boom''] =
           (running\<lparr>output_type := Some ERROR\<rparr>,
            [StateLog EXPECTING_OUTPUT, Print Stderr (ascii ''boom''), StateLog RUNNING],
            Returned)\<close>
proof -
  have ex: \<open>handle_messages running [Text (ascii ''451-["err"]''), Binary ''boom''] =
           (running\<lparr>output_type := Some ERROR\<rparr>,
            [StateLog EXPECTING_OUTPUT, Print Stderr (ascii ''boom''), StateLog RUNNING],
            Returned)\<close>
    by (simp add: eval_loads eval_handle)
  from assms have
    "output_type c = Some OUTPUT \<and> payload_text m = Some t \<longrightarrow>
       handle_message c m =
         (c\<lparr>state := RUNNING\<rparr>, [Print Stdout t, StateLog RUNNING], Returned)"
    by (auto simp: handle_message_def expecting_output_def print_payload_def payload_text_def
             split: message.splits)
  moreover from assms have
    "output_type c = Some ERROR \<and> payload_text m = Some t \<longrightarrow>
       handle_message c m =
         (c\<lparr>state := RUNNING\<rparr>, [Print Stderr t, StateLog RUNNING], Returned)"
    by (auto simp: handle_message_def expecting_output_def print_payload_def payload_text_def
             split: message.splits)
  moreover from assms have
    "output_type c = Some INPUT \<longrightarrow>
       handle_message c m = (c\<lparr>state := RUNNING\<rparr>, [StateLog RUNNING], Returned)"
    by (simp add: handle_message_def expecting_output_def)
  moreover from assms have
    "output_type c = Some OUTPUT \<and> payload_text m = None \<longrightarrow>
       handle_message c m = (c, [], Raised UnicodeDecodeError)"
    by (auto simp: handle_message_def expecting_output_def print_payload_def payload_text_def
             split: message.splits)
  moreover from assms have
    "output_type c = Some ERROR \<and> payload_text m = None \<longrightarrow>
       handle_message c m = (c, [], Raised UnicodeDecodeError)"
    by (auto simp: handle_message_def expecting_output_def print_payload_def payload_text_def
             split: message.splits)
  moreover from assms have
    "output_type c = None \<longrightarrow> handle_message c m = (c, [], Raised NotImplementedError)"
    by (simp add: handle_message_def expecting_output_def)
  ultimately show ?thesis using ex by blast
qed

theorem payload_routed_witness:
  \<open>state (expecting ERROR) = EXPECTING_OUTPUT \<and>
   output_type (expecting ERROR) = Some ERROR \<and>
   payload_text (Binary ''boom'') = Some (ascii ''boom'') \<and>
   handle_message (expecting ERROR) (Binary ''boom'') =
     ((expecting ERROR)\<lparr>state := RUNNING\<rparr>,
      [Print Stderr (ascii ''boom''), StateLog RUNNING], Returned) \<and>
   payload_text (Binary [CHR 0xC3]) = None \<and>
   handle_message (expecting ERROR) (Binary [CHR 0xC3]) =
     (expecting ERROR, [], Raised UnicodeDecodeError)\<close>
proof -
  have a: "state (expecting ERROR) = EXPECTING_OUTPUT" by (simp add: expecting_def)
  have b: "output_type (expecting ERROR) = Some ERROR" by (simp add: expecting_def)
  have c: "payload_text (Binary ''boom'') = Some (ascii ''boom'')"
    by (simp add: payload_text_def bytes_decode_def ascii_def)
  have d: "payload_text (Binary [CHR 0xC3]) = None"
    by (simp add: payload_text_def bytes_decode_def)
  from payload_routed [OF a, of "Binary ''boom''" "ascii ''boom''"]
       payload_routed [OF a, of "Binary [CHR 0xC3]" "[]"] a b c d
  show ?thesis by blast
qed

subsection \<open>The acknowledgement\<close>

text \<open>
  Claim C7. With at least one file, the message \<open>40\<close> received in state \<open>INITIALIZED\<close> sets the
  state to \<open>WAITING_FOR_CODE\<close>, sends one message, the \<open>code\<close> event, and sets the state to
  \<open>RUNNING\<close>; nothing is printed. The same holds after the handshake: from \<open>CONNECTED\<close>, an
  opening message and then \<open>40\<close> give exactly these effects, with no output before the run
  request.
\<close>

theorem ack_sends_run_request:
  assumes "files c = f # fs"
  shows "(state c = INITIALIZED \<longrightarrow>
            handle_message c (Text (ascii ''40'')) =
              (c\<lparr>state := RUNNING\<rparr>,
               [StateLog WAITING_FOR_CODE,
                Send (ascii ''42'' @
                  json_dumps (JList [JStr (ascii ''code''), JList (map file_object (files c)),
                                     JStr (str_join [32] (cli_args c)), JStr (fst f)])),
                StateLog RUNNING],
               Returned)) \<and>
         (state c = CONNECTED \<and> startswith t (ascii ''0{'') \<longrightarrow>
            handle_messages c [Text t, Text (ascii ''40'')] =
              (c\<lparr>state := RUNNING\<rparr>,
               [StateLog INITIALIZED, StateLog WAITING_FOR_CODE,
                Send (ascii ''42'' @
                  json_dumps (JList [JStr (ascii ''code''), JList (map file_object (files c)),
                                     JStr (str_join [32] (cli_args c)), JStr (fst f)])),
                StateLog RUNNING],
               Returned))"
  using assms
  by (simp add: handle_message_def send_files_and_run_def send_list_def)

theorem ack_sends_run_request_witness:
  "files ((init a_py None)\<lparr>state := INITIALIZED\<rparr>) = (ascii ''a.py'', ascii ''print(1)'') # [] \<and>
   state ((init a_py None)\<lparr>state := INITIALIZED\<rparr>) = INITIALIZED \<and>
   handle_message ((init a_py None)\<lparr>state := INITIALIZED\<rparr>) (Text (ascii ''40'')) =
     (running,
      [StateLog WAITING_FOR_CODE,
       Send (ascii ''42'' @
         json_dumps (JList [JStr (ascii ''code''), JList (map file_object a_py),
                            JStr [], JStr (ascii ''a.py'')])),
       StateLog RUNNING],
      Returned)"
proof -
  have a: "files ((init a_py None)\<lparr>state := INITIALIZED\<rparr>) =
             (ascii ''a.py'', ascii ''print(1)'') # []"
    by (simp add: init_def a_py_def)
  from ack_sends_run_request [OF a, of undefined] a show ?thesis
    by (simp add: init_def running_def del: json_dumps.simps)
qed

subsection \<open>Local input\<close>





subsection \<open>Pairs outside the transition table\<close>

lemma decode_packet_Text:
  assumes "decode_packet (Text t) = Some p"
  shows "(p = Ack \<and> t = ascii ''40'') \<or>
         (p = Disconnect \<and> t = ascii ''41'') \<or>
         ((\<exists>d. p = Open d) \<and> take 1 t = ascii ''0'' \<and> t \<noteq> ascii ''40'') \<or>
         (\<exists>name args. p = Event name args \<and> take 2 t = ascii ''42'' \<and>
            json_loads (drop 2 t) = Inr (JList (JStr name # args))) \<or>
         (\<exists>name args b. p = HeaderEvent name args \<and> take 2 t = ascii ''45'' \<and>
            header_body (drop 2 t) = Some b \<and>
            json_loads b = Inr (JList (JStr name # args)))"
  using assms
  by (auto simp: decode_packet_def event_body_def
           split: if_splits option.splits sum.splits json.splits list.splits)

lemma decode_packet_Binary: "decode_packet (Binary b) = None"
  by (simp add: decode_packet_def)

lemma header_body_451:
  assumes "startswith t (ascii ''451-'')"
  shows "header_body (drop 2 t) = Some (drop 4 t)"
proof -
  from assms obtain r where "t = 52 # 53 # 49 # 45 # r"
    using startswith_451D by blast
  then show ?thesis by (simp add: header_body_def is_digit_def)
qed

lemma take1_0:
  assumes "take 1 t = ascii ''0''"
  shows "take 2 t \<noteq> ascii ''45'' \<and> take 2 t \<noteq> ascii ''42'' \<and> take 2 t \<noteq> ascii ''41''"
  using assms by (cases t) (auto simp: ascii_def)

lemma take1_not0:
  assumes "take 1 t \<noteq> ascii ''0''"
  shows "\<not> startswith t (ascii ''0{'')"
  using assms by (cases t) (auto simp: ascii_def startswith_Cons startswith_Nil)

lemma take2_4:
  assumes "take 2 t = 52 # x # []"
  shows "take 1 t \<noteq> ascii ''0''"
  using assms by (cases t) (auto simp: ascii_def)

lemma running_42_unlisted:
  assumes "json_loads (drop 2 t) = Inr (JList (JStr name # args))"
    and "\<not> (name = ascii ''exit'' \<and> length args = 2)"
  shows "running_42 c t = (c, [], Raised ValueError) \<or>
         running_42 c t = (c, [], Raised NotImplementedError)"
proof (cases "length args = 2")
  case True
  then obtain y z where "args = [y, z]"
    by (cases args; cases "tl args"; cases "tl (tl args)") auto
  with assms show ?thesis by (simp add: running_42_def)
next
  case False
  then have "unpack3 (JList (JStr name # args)) = Inl ValueError"
    by (cases args; cases "tl args"; cases "tl (tl args)") auto
  with assms show ?thesis by (simp add: running_42_def)
qed

lemma running_45_unlisted:
  assumes "header_body (drop 2 t) = Some b"
    and "json_loads b = Inr (JList (JStr name # args))"
    and "output_kind name = None"
  shows "running_45 c t = (c, [], Raised AssertionError) \<or>
         running_45 c t = (c, [], Raised NotImplementedError)"
proof (cases "startswith t (ascii ''451-'')")
  case False
  then show ?thesis by (simp add: running_45_def)
next
  case True
  with assms(1) have "b = drop 4 t" by (simp add: header_body_451)
  with assms(2,3) True show ?thesis
    by (auto simp: running_45_def output_kind_def split: if_splits)
qed

text \<open>
  Claim C4. When a message decodes to a packet and the pair of the client's state and
  that packet is not a row of the transition table, \<open>handle_message\<close> raises
  \<open>AssertionError\<close>, \<open>NotImplementedError\<close> or \<open>ValueError\<close>, with the client unchanged and
  nothing sent or printed.
\<close>

theorem unlisted_pair_raises:
  assumes "decode_packet m = Some p" and "\<not> in_table (state c) p"
  shows "\<exists>e \<in> {AssertionError, NotImplementedError, ValueError}.
           handle_message c m = (c, [], Raised e)"
proof -
  from assms(1) obtain t where m: "m = Text t"
    by (cases m) (simp_all add: decode_packet_Binary)
  note d = decode_packet_Text [OF assms(1) [unfolded m]]
  show ?thesis
  proof (cases "state c")
    case DISCONNECTED
    then show ?thesis by (simp add: handle_message_def)
  next
    case CONNECTED
    with assms(2) have "\<forall>j. p \<noteq> Open j" by auto
    with d have "take 1 t \<noteq> ascii ''0''"
      by (cases t) (auto simp: ascii_def)
    then have "\<not> startswith t (ascii ''0{'')" by (rule take1_not0)
    with CONNECTED m show ?thesis by (simp add: handle_message_def)
  next
    case INITIALIZED
    with assms(2) have "p \<noteq> Ack" by auto
    with assms(1) m have "t \<noteq> ascii ''40''" by (auto simp: decode_packet_def)
    with INITIALIZED m show ?thesis by (simp add: handle_message_def)
  next
    case WAITING_FOR_CODE
    then show ?thesis by (simp add: handle_message_def)
  next
    case RUNNING
    from d consider
        (ack) "t = ascii ''40''"
      | (opn) "take 1 t = ascii ''0''"
      | (dis) "p = Disconnect"
      | (evt) name args where "p = Event name args" "take 2 t = ascii ''42''"
          "json_loads (drop 2 t) = Inr (JList (JStr name # args))"
      | (hdr) name args b where "p = HeaderEvent name args" "take 2 t = ascii ''45''"
          "header_body (drop 2 t) = Some b" "json_loads b = Inr (JList (JStr name # args))"
      by blast
    then show ?thesis
    proof cases
      case ack
      with RUNNING m show ?thesis by (simp add: handle_message_def ascii_def)
    next
      case opn
      from take1_0 [OF opn] RUNNING m show ?thesis by (simp add: handle_message_def)
    next
      case dis
      with assms(2) RUNNING show ?thesis by simp
    next
      case evt
      with assms(2) RUNNING have "\<not> (name = ascii ''exit'' \<and> length args = 2)" by simp
      from running_42_unlisted [OF evt(3) this, of c] evt(2) RUNNING m show ?thesis
        by (auto simp: handle_message_def ascii_def)
    next
      case hdr
      with assms(2) RUNNING have "output_kind name = None" by simp
      from running_45_unlisted [OF hdr(3,4) this, of c] hdr(2) RUNNING m show ?thesis
        by (auto simp: handle_message_def)
    qed
  next
    case EXPECTING_OUTPUT
    with assms(2) show ?thesis by simp
  next
    case SESSION_KILLED
    then show ?thesis by (simp add: handle_message_def)
  qed
qed

theorem unlisted_pair_raises_witness:
  \<open>decode_packet (Text (ascii ''42["output","x"]'')) =
     Some (Event (ascii ''output'') [JStr (ascii ''x'')]) \<and>
   \<not> in_table (state running) (Event (ascii ''output'') [JStr (ascii ''x'')]) \<and>
   handle_message running (Text (ascii ''42["output","x"]'')) = (running, [], Raised ValueError)\<close>
proof -
  have a: \<open>decode_packet (Text (ascii ''42["output","x"]'')) =
     Some (Event (ascii ''output'') [JStr (ascii ''x'')])\<close>
    by (simp add: decode_packet_def event_body_def eval_loads)
  have b: "\<not> in_table (state running) (Event (ascii ''output'') [JStr (ascii ''x'')])"
    by (simp add: running_def ascii_def)
  have c: \<open>handle_message running (Text (ascii ''42["output","x"]'')) \<noteq>
             (running, [], Raised AssertionError)\<close>
    \<open>handle_message running (Text (ascii ''42["output","x"]'')) \<noteq>
             (running, [], Raised NotImplementedError)\<close>
    by (simp_all add: eval_loads eval_handle)
  from unlisted_pair_raises [OF a b] a b c show ?thesis by auto
qed

subsection \<open>Which events and headers are accepted\<close>

lemma handle_running_42:
  assumes "state c = RUNNING" and "take 2 t = ascii ''42''"
  shows "handle_message c (Text t) = running_42 c t"
  using assms by (simp add: handle_message_def ascii_def)

lemma handle_running_45_prefix:
  assumes "state c = RUNNING" and "take 2 t = ascii ''45''"
  shows "handle_message c (Text t) = running_45 c t"
  using assms by (simp add: handle_message_def)

lemma getitem0_name:
  assumes "getitem0 data = Inr (JStr name)" and "output_kind name \<noteq> None"
  shows "\<exists>args. data = JList (JStr name # args)"
  using assms
  by (cases data rule: getitem0.cases)
     (auto simp: output_kind_def ascii_def split: if_splits)

lemma running_45_rejects:
  assumes "\<not> (startswith t (ascii ''451-'') \<and>
              (\<exists>name args. json_loads (drop 4 t) = Inr (JList (JStr name # args)) \<and>
                 output_kind name \<noteq> None))"
  shows "\<exists>e. running_45 c t = (c, [], Raised e)"
proof (cases "startswith t (ascii ''451-'')")
  case False
  then show ?thesis by (simp add: running_45_def)
next
  case True
  show ?thesis
  proof (cases "json_loads (drop 4 t)")
    case (Inl e)
    with True show ?thesis by (simp add: running_45_def)
  next
    case (Inr data)
    show ?thesis
    proof (cases "getitem0 data")
      case (Inl e)
      with True Inr show ?thesis by (simp add: running_45_def)
    next
      case g: (Inr x)
      have "\<not> (\<exists>name. x = JStr name \<and> output_kind name \<noteq> None)"
      proof
        assume "\<exists>name. x = JStr name \<and> output_kind name \<noteq> None"
        then obtain name where n: "x = JStr name" "output_kind name \<noteq> None" by blast
        with g getitem0_name obtain args where "data = JList (JStr name # args)" by blast
        with assms True Inr n show False by simp
      qed
      then have "x \<noteq> JStr (ascii ''output'') \<and> x \<noteq> JStr (ascii ''err'') \<and>
                 x \<noteq> JStr (ascii ''input'')"
        by (auto simp: output_kind_def ascii_def)
      with True Inr g show ?thesis by (simp add: running_45_def)
    qed
  qed
qed

lemma unpack3_length:
  assumes "length xs \<noteq> 3"
  shows "unpack3 (JList xs) = Inl ValueError"
  using assms by (cases xs; cases "tl xs"; cases "tl (tl xs)"; cases "tl (tl (tl xs))") auto

text \<open>
  Claim C8, as stated, fails in both directions: the event \<open>42["exit","bye"]\<close> has a
  well-formed body of two elements and the name \<open>exit\<close> that state \<open>RUNNING\<close> expects, and it
  raises \<open>ValueError\<close>, since the code unpacks the body into exactly three values; the
  header \<open>451-["input"]\<close> has a body of one element and is accepted.
\<close>

theorem decode_arity_counterexample:
  \<open>event_body (ascii ''["exit","bye"]'') = Some (ascii ''exit'', [JStr (ascii ''bye'')]) \<and>
   handle_message running (Text (ascii ''42["exit","bye"]'')) = (running, [], Raised ValueError) \<and>
   json_loads (ascii ''["input"]'') = Inr (JList [JStr (ascii ''input'')]) \<and>
   handle_message running (Text (ascii ''451-["input"]'')) =
     (running\<lparr>output_type := Some INPUT, state := EXPECTING_OUTPUT\<rparr>,
      [StateLog EXPECTING_OUTPUT], Returned)\<close>
  by (simp add: event_body_def eval_loads eval_handle)

text \<open>
  Claim C8, amended. In state \<open>RUNNING\<close>, a message with prefix \<open>45\<close> is accepted exactly
  when it starts with \<open>451-\<close> and the text after these four characters is a JSON array of
  one or more elements whose first element is \<open>output\<close>, \<open>err\<close> or \<open>input\<close>; every other
  message with prefix \<open>45\<close> raises and leaves the client unchanged. A message with prefix
  \<open>42\<close> raises the error of \<open>json.loads\<close> when its body is not well-formed JSON, \<open>ValueError\<close>
  when the body is an array that has not exactly three elements, and \<open>NotImplementedError\<close>
  when it is an array of three elements whose first is not \<open>exit\<close>; an array
  \<open>["exit", text, code]\<close> with an integer code that fits a C \<open>int\<close> ends the process with that
  code.
\<close>

theorem running_decode_outcomes:
  assumes "state c = RUNNING"
  shows "(take 2 t = ascii ''45'' \<longrightarrow>
            (if startswith t (ascii ''451-'') \<and>
                (\<exists>name args. json_loads (drop 4 t) = Inr (JList (JStr name # args)) \<and>
                   output_kind name \<noteq> None)
             then snd (snd (handle_message c (Text t))) = Returned
             else \<exists>e. handle_message c (Text t) = (c, [], Raised e))) \<and>
         (take 2 t = ascii ''42'' \<longrightarrow>
            (\<forall>e. json_loads (drop 2 t) = Inl e \<longrightarrow>
                 handle_message c (Text t) = (c, [], Raised e)) \<and>
            (\<forall>xs. json_loads (drop 2 t) = Inr (JList xs) \<longrightarrow> length xs \<noteq> 3 \<longrightarrow>
                 handle_message c (Text t) = (c, [], Raised ValueError)) \<and>
            (\<forall>x y z. json_loads (drop 2 t) = Inr (JList [x, y, z]) \<longrightarrow>
                 x \<noteq> JStr (ascii ''exit'') \<longrightarrow>
                 handle_message c (Text t) = (c, [], Raised NotImplementedError)) \<and>
            (\<forall>msg i. json_loads (drop 2 t) =
                        Inr (JList [JStr (ascii ''exit''), JStr msg, JInt i]) \<longrightarrow>
                 - 2147483648 \<le> i \<longrightarrow> i \<le> 2147483647 \<longrightarrow>
                 handle_message c (Text t) = (c, [], Exited i)))"
proof (intro conjI impI allI)
  assume p: "take 2 t = ascii ''45''"
  show "if startswith t (ascii ''451-'') \<and>
           (\<exists>name args. json_loads (drop 4 t) = Inr (JList (JStr name # args)) \<and>
              output_kind name \<noteq> None)
        then snd (snd (handle_message c (Text t))) = Returned
        else \<exists>e. handle_message c (Text t) = (c, [], Raised e)"
  proof (cases "startswith t (ascii ''451-'') \<and>
           (\<exists>name args. json_loads (drop 4 t) = Inr (JList (JStr name # args)) \<and>
              output_kind name \<noteq> None)")
    case True
    then obtain name args k where "startswith t (ascii ''451-'')"
      "json_loads (drop 4 t) = Inr (JList (JStr name # args))" "output_kind name = Some k"
      by auto
    from running_45_accepts [OF this, of c] assms p
    have "snd (snd (handle_message c (Text t))) = Returned"
      by (simp add: handle_running_45_prefix)
    then show ?thesis unfolding if_P [OF True] .
  next
    case False
    from running_45_rejects [OF False, of c] assms p
    have "\<exists>e. handle_message c (Text t) = (c, [], Raised e)"
      by (simp add: handle_running_45_prefix)
    then show ?thesis unfolding if_not_P [OF False] .
  qed
next
  fix e assume "take 2 t = ascii ''42''" "json_loads (drop 2 t) = Inl e"
  with assms show "handle_message c (Text t) = (c, [], Raised e)"
    by (simp add: handle_running_42 running_42_def)
next
  fix xs :: "json list"
  assume "take 2 t = ascii ''42''" "json_loads (drop 2 t) = Inr (JList xs)" "length xs \<noteq> 3"
  with assms show "handle_message c (Text t) = (c, [], Raised ValueError)"
    by (simp add: handle_running_42 running_42_def unpack3_length)
next
  fix x y z
  assume "take 2 t = ascii ''42''" "json_loads (drop 2 t) = Inr (JList [x, y, z])"
    "x \<noteq> JStr (ascii ''exit'')"
  with assms show "handle_message c (Text t) = (c, [], Raised NotImplementedError)"
    by (simp add: handle_running_42 running_42_def)
next
  fix msg i
  assume "take 2 t = ascii ''42''"
    "json_loads (drop 2 t) = Inr (JList [JStr (ascii ''exit''), JStr msg, JInt i])"
    "- 2147483648 \<le> i" "i \<le> 2147483647"
  with assms show "handle_message c (Text t) = (c, [], Exited i)"
    by (rule exit_int_code)
qed

theorem running_decode_outcomes_witness:
  \<open>state running = RUNNING \<and>
   take 2 (ascii ''42["exit","bye",3]'') = ascii ''42'' \<and>
   json_loads (drop 2 (ascii ''42["exit","bye",3]'')) =
     Inr (JList [JStr (ascii ''exit''), JStr (ascii ''bye''), JInt 3]) \<and>
   handle_message running (Text (ascii ''42["exit","bye",3]'')) = (running, [], Exited 3) \<and>
   take 2 (ascii ''42["exit"]'') = ascii ''42'' \<and>
   json_loads (drop 2 (ascii ''42["exit"]'')) = Inr (JList [JStr (ascii ''exit'')]) \<and>
   handle_message running (Text (ascii ''42["exit"]'')) = (running, [], Raised ValueError) \<and>
   take 2 (ascii ''450-["err"]'') = ascii ''45'' \<and>
   \<not> startswith (ascii ''450-["err"]'') (ascii ''451-'') \<and>
   (\<exists>e. handle_message running (Text (ascii ''450-["err"]'')) = (running, [], Raised e))\<close>
proof -
  have a: "state running = RUNNING" by (simp add: running_def)
  have b: \<open>take 2 (ascii ''42["exit","bye",3]'') = ascii ''42''\<close> by (simp add: ascii_def)
  have c: \<open>json_loads (drop 2 (ascii ''42["exit","bye",3]'')) =
     Inr (JList [JStr (ascii ''exit''), JStr (ascii ''bye''), JInt 3])\<close>
    by (simp add: eval_loads)
  have d: \<open>take 2 (ascii ''42["exit"]'') = ascii ''42''\<close> by (simp add: ascii_def)
  have e: \<open>json_loads (drop 2 (ascii ''42["exit"]'')) = Inr (JList [JStr (ascii ''exit'')])\<close>
    by (simp add: eval_loads)
  have f: \<open>take 2 (ascii ''450-["err"]'') = ascii ''45''\<close> by (simp add: ascii_def)
  have g: \<open>\<not> startswith (ascii ''450-["err"]'') (ascii ''451-'')\<close>
    by (simp add: ascii_def startswith_def)
  from running_decode_outcomes [OF a, of \<open>ascii ''42["exit","bye",3]''\<close>] b c
  have h: \<open>handle_message running (Text (ascii ''42["exit","bye",3]'')) = (running, [], Exited 3)\<close>
    by simp
  from running_decode_outcomes [OF a, of \<open>ascii ''42["exit"]''\<close>] d e
  have i: \<open>handle_message running (Text (ascii ''42["exit"]'')) = (running, [], Raised ValueError)\<close>
    by simp
  from running_decode_outcomes [OF a, of \<open>ascii ''450-["err"]''\<close>] f g
  have j: \<open>\<exists>e. handle_message running (Text (ascii ''450-["err"]'')) = (running, [], Raised e)\<close>
    by simp
  from a b c d e f g h i j show ?thesis by blast
qed










































subsection \<open>The run request\<close>



end
